theory Spec2Isabelle
  imports Main
begin

section \<open>The peer-to-peer game connection hook\<close>

text \<open>
  This theory embeds \<^verbatim>\<open>src/hooks/useGameConnection.ts\<close>, a React hook over PeerJS.

  The hook keeps its data in state cells (\<^verbatim>\<open>myPeerId\<close>, \<^verbatim>\<open>status\<close>, \<^verbatim>\<open>role\<close>,
  \<^verbatim>\<open>gameState\<close>) and in refs (\<^verbatim>\<open>peerRef\<close>, \<^verbatim>\<open>gameStateRef\<close>,
  \<^verbatim>\<open>connectionsRef\<close>). Every render of the component makes new functions
  \<^verbatim>\<open>handleIncomingMessage\<close>, \<^verbatim>\<open>hostGame\<close>, \<^verbatim>\<open>joinGame\<close> and
  \<^verbatim>\<open>broadcastGameState\<close>, which read the values that the state cells had in that
  render, whereas a ref is read and written in place. A function that is registered
  as a handler on a PeerJS object stays the function of the render that registered it.
  In the model

  \<^item> each function of the hook takes the values its render read (a role, a peer id) as
    its first arguments, and the data of the hook as a record that it returns updated,
    together with its effects on the outside: the calls of \<^verbatim>\<open>send\<close> on data
    connections and the calls of \<^verbatim>\<open>toast\<close>;
  \<^item> a setter of a state cell writes the cell; a render is an event of its own, which
    makes the values of the cells the ones that the functions handed to the user
    interface read, and runs the effect that copies \<^verbatim>\<open>gameState\<close> into
    \<^verbatim>\<open>gameStateRef.current\<close>;
  \<^item> the record holds the connection objects that PeerJS has given to the hook, each
    with the handlers the hook registered on it.

  Calls of \<^verbatim>\<open>console.log\<close> are left out.
\<close>

subsection \<open>Data\<close>

datatype ConnectionStatus = disconnected | connecting | connected | error

datatype PlayerRole = Host | Peer | RoleNone

text \<open>
  \<^verbatim>\<open>Player\<close> and \<^verbatim>\<open>GameState\<close> are declared in \<^verbatim>\<open>@/lib/game\<close>. The fields of
  \<^verbatim>\<open>Player\<close> are those of the object literal in the join branch; the type of a card
  is the parameter \<open>'c\<close>. The fields of \<^verbatim>\<open>GameState\<close> are the ones the hook reads or
  writes; all its other fields are the extension slot of the record, which the object
  spread \<^verbatim>\<open>{...currentGameState, players: _, turnHistory: _}\<close> copies as a record
  update does. Numbers that count (\<^verbatim>\<open>id\<close>, \<^verbatim>\<open>playerCount\<close>, \<^verbatim>\<open>tricksWon\<close>) are
  integers.
\<close>

record 'c Player =
  id_player :: int
  peerId :: string
  name :: string
  hand :: "'c list"
  isBidder :: bool
  isPartner :: bool
  collectedCards :: "'c list"
  tricksWon :: int

record 'c GameState =
  id_room :: string
  hostPeerId :: string
  players :: "'c Player list"
  playerCount :: int
  turnHistory :: "string list"

datatype ('c, 'm) Message =
    game_state_update "('c, 'm) GameState_scheme"
  | player_join_request string string
  | game_full
  | welcome_msg "('c, 'm) GameState_scheme"

record Toast =
  variant :: string
  title :: string
  description :: string

text \<open>
  A PeerJS \<^verbatim>\<open>DataConnection\<close>. The hook reads its \<^verbatim>\<open>peer\<close> and \<^verbatim>\<open>open\<close>. The model
  adds what the hook has registered on the object. \<open>Incoming\<close> is a connection that
  the \<^verbatim>\<open>connection\<close> event of the PeerJS instance delivered; its handlers of
  \<^verbatim>\<open>data\<close> and \<^verbatim>\<open>close\<close> are registered when it opens (\<open>listening\<close>).
  \<open>Outgoing r me\<close> is a connection that \<^verbatim>\<open>joinGame\<close> made in a render in which
  \<^verbatim>\<open>role\<close> was \<open>r\<close> and \<^verbatim>\<open>myPeerId\<close> was \<open>me\<close>; its handlers of \<^verbatim>\<open>open\<close>,
  \<^verbatim>\<open>data\<close> and \<^verbatim>\<open>error\<close> are the functions of that render.
\<close>

datatype origin = Incoming | Outgoing PlayerRole string

record DataConnection =
  peer :: string
  open_conn :: bool
  origin :: origin
  listening :: bool

subsection \<open>The registry of connections\<close>

text \<open>
  \<^verbatim>\<open>connectionsRef.current\<close> is a plain object, \<^verbatim>\<open>Record<string, DataConnection>\<close>.
  It is the list of its own entries in the order in which \<^verbatim>\<open>Object.values\<close>
  enumerates them; a value is the position of the connection object among the
  connections of the hook.

  The own keys of an object are enumerated with the array indices first, in ascending
  order, and the other strings after them in the order of their creation. An array
  index is the decimal numeral, without a leading zero, of a number up to 4294967294.
\<close>

type_synonym registry = "(string \<times> nat) list"

definition digit_value :: "char \<Rightarrow> nat option" where
  "digit_value c = map_of (zip ''0123456789'' [0, 1, 2, 3, 4, 5, 6, 7, 8, 9]) c"

fun decimal :: "nat \<Rightarrow> string \<Rightarrow> nat option" where
  "decimal acc [] = Some acc"
| "decimal acc (c # cs) =
     (case digit_value c of None \<Rightarrow> None | Some d \<Rightarrow> decimal (10 * acc + d) cs)"

definition array_index :: "string \<Rightarrow> nat option" where
  "array_index k =
     (if k = [] \<or> (1 < length k \<and> hd k = CHR ''0'') then None
      else case decimal 0 k of
             None \<Rightarrow> None
           | Some n \<Rightarrow> if n \<le> 4294967294 then Some n else None)"

fun insert_indexed :: "nat \<Rightarrow> string \<times> nat \<Rightarrow> registry \<Rightarrow> registry" where
  "insert_indexed n e [] = [e]"
| "insert_indexed n e (x # xs) =
     (case array_index (fst x) of
        Some m \<Rightarrow> if m < n then x # insert_indexed n e xs else e # x # xs
      | None \<Rightarrow> e # x # xs)"

text \<open>
  \<^verbatim>\<open>connectionsRef.current[k] = conn\<close>. The keys are peer ids; a PeerJS id begins with
  a letter or a digit, so the key \<^verbatim>\<open>__proto__\<close>, whose assignment would not make an
  own entry, does not occur.
\<close>

definition registry_set :: "registry \<Rightarrow> string \<Rightarrow> nat \<Rightarrow> registry" where
  "registry_set reg k v =
     (if map_of reg k \<noteq> None
      then map (\<lambda>(k', v'). if k' = k then (k', v) else (k', v')) reg
      else case array_index k of
             Some n \<Rightarrow> insert_indexed n (k, v) reg
           | None \<Rightarrow> reg @ [(k, v)])"

text \<open>\<^verbatim>\<open>delete connectionsRef.current[k]\<close>.\<close>

definition registry_delete :: "registry \<Rightarrow> string \<Rightarrow> registry" where
  "registry_delete reg k = filter (\<lambda>(k', v). k' \<noteq> k) reg"

text \<open>
  The read \<^verbatim>\<open>connectionsRef.current[k]\<close>: an own entry, or, for a key that is the
  name of a member of \<^verbatim>\<open>Object.prototype\<close>, that member, or \<^verbatim>\<open>undefined\<close>.
\<close>

datatype lookup = Absent | Own nat | Inherited

definition prototype_keys :: "string list" where
  "prototype_keys =
     [''constructor'', ''__defineGetter__'', ''__defineSetter__'', ''hasOwnProperty'',
      ''__lookupGetter__'', ''__lookupSetter__'', ''isPrototypeOf'',
      ''propertyIsEnumerable'', ''toString'', ''valueOf'', ''__proto__'',
      ''toLocaleString'']"

definition registry_get :: "registry \<Rightarrow> string \<Rightarrow> lookup" where
  "registry_get reg k =
     (case map_of reg k of
        Some i \<Rightarrow> Own i
      | None \<Rightarrow> if k \<in> set prototype_keys then Inherited else Absent)"

subsection \<open>The data of the hook\<close>

text \<open>
  \<open>localPlayerName\<close> is the argument of the hook. \<open>rendered_role\<close> and
  \<open>rendered_myPeerId\<close> are the values of \<^verbatim>\<open>role\<close> and \<^verbatim>\<open>myPeerId\<close> in the last
  render, which the functions that the hook has returned to its caller read.
  \<open>peerRef\<close> tells whether \<^verbatim>\<open>peerRef.current\<close> holds a PeerJS instance.
\<close>

record ('c, 'm) hook =
  localPlayerName :: string
  myPeerId :: string
  status :: ConnectionStatus
  role :: PlayerRole
  gameState :: "('c, 'm) GameState_scheme option"
  rendered_role :: PlayerRole
  rendered_myPeerId :: string
  peerRef :: bool
  gameStateRef :: "('c, 'm) GameState_scheme option"
  connectionsRef :: registry
  conns :: "DataConnection list"

text \<open>
  The effects of a function: \<open>sends\<close> lists the calls of \<^verbatim>\<open>send\<close> in the order they
  are made, each with the \<^verbatim>\<open>peer\<close> of the connection and the message; \<open>toasts\<close>
  lists the calls of \<^verbatim>\<open>toast\<close>; \<open>thrown\<close> tells that the function ended by a
  \<^verbatim>\<open>TypeError\<close>.
\<close>

record ('c, 'm) effects =
  sends :: "(string \<times> ('c, 'm) Message) list"
  toasts :: "Toast list"
  thrown :: bool

definition no_effects :: "('c, 'm) effects" where
  "no_effects = \<lparr>sends = [], toasts = [], thrown = False\<rparr>"

definition then_effects :: "('c, 'm) effects \<Rightarrow> ('c, 'm) effects \<Rightarrow> ('c, 'm) effects" where
  "then_effects e1 e2 =
     \<lparr>sends = sends e1 @ sends e2, toasts = toasts e1 @ toasts e2, thrown = thrown e2\<rparr>"

definition toast :: "string \<Rightarrow> string \<Rightarrow> ('c, 'm) effects" where
  "toast t d =
     \<lparr>sends = [], toasts = [\<lparr>variant = ''destructive'', title = t, description = d\<rparr>],
      thrown = False\<rparr>"

text \<open>The values of \<^verbatim>\<open>useState\<close> and \<^verbatim>\<open>useRef\<close> in the first render.\<close>

definition initial_role :: PlayerRole where
  "initial_role = RoleNone"

definition initial_hook :: "string \<Rightarrow> ('c, 'm) hook" where
  "initial_hook playerName =
     \<lparr>localPlayerName = playerName, myPeerId = [], status = disconnected,
      role = initial_role, gameState = None,
      rendered_role = initial_role, rendered_myPeerId = [],
      peerRef = False, gameStateRef = None, connectionsRef = [], conns = []\<rparr>"

definition conn_at :: "('c, 'm) hook \<Rightarrow> nat \<Rightarrow> DataConnection option" where
  "conn_at st i = (if i < length (conns st) then Some (conns st ! i) else None)"

subsection \<open>The functions of a render\<close>

text \<open>
  \<^verbatim>\<open>connectionsRef.current[k]?.send(m)\<close>: nothing is called when the read gives
  \<^verbatim>\<open>undefined\<close>; a member of \<^verbatim>\<open>Object.prototype\<close> has no \<^verbatim>\<open>send\<close>, and the call
  throws.
\<close>

definition send_to :: "('c, 'm) hook \<Rightarrow> string \<Rightarrow> ('c, 'm) Message \<Rightarrow> ('c, 'm) effects" where
  "send_to st k m =
     (case registry_get (connectionsRef st) k of
        Absent \<Rightarrow> no_effects
      | Inherited \<Rightarrow> \<lparr>sends = [], toasts = [], thrown = True\<rparr>
      | Own i \<Rightarrow>
          (case conn_at st i of
             None \<Rightarrow> no_effects
           | Some conn \<Rightarrow> \<lparr>sends = [(peer conn, m)], toasts = [], thrown = False\<rparr>))"

text \<open>\<^verbatim>\<open>Object.values(connectionsRef.current)\<close>.\<close>

definition registry_values :: "('c, 'm) hook \<Rightarrow> DataConnection list" where
  "registry_values st = List.map_filter (\<lambda>(k, i). conn_at st i) (connectionsRef st)"

text \<open>
  \<^verbatim>\<open>broadcastGameState\<close> of a render in which \<^verbatim>\<open>role\<close> was \<open>closure_role\<close>: it
  returns at once unless that role is \<^verbatim>\<open>'host'\<close>; otherwise it sends the state on
  every open connection of the registry and sets \<^verbatim>\<open>gameState\<close>.
\<close>

definition broadcastGameState ::
  "PlayerRole \<Rightarrow> ('c, 'm) hook \<Rightarrow> ('c, 'm) GameState_scheme
     \<Rightarrow> ('c, 'm) hook \<times> ('c, 'm) effects" where
  "broadcastGameState closure_role st newState =
     (if closure_role \<noteq> Host then (st, no_effects)
      else (st\<lparr>gameState := Some newState\<rparr>,
            \<lparr>sends = map (\<lambda>conn. (peer conn, game_state_update newState))
                       (filter open_conn (registry_values st)),
             toasts = [], thrown = False\<rparr>))"

text \<open>
  \<^verbatim>\<open>handleIncomingMessage\<close> of a render in which \<^verbatim>\<open>role\<close> was \<open>closure_role\<close>.
  The game state it reads is \<^verbatim>\<open>gameStateRef.current\<close>; the
  \<^verbatim>\<open>broadcastGameState\<close> it calls is the one of the same render.
\<close>

definition handleIncomingMessage ::
  "PlayerRole \<Rightarrow> ('c, 'm) hook \<Rightarrow> ('c, 'm) Message \<Rightarrow> string
     \<Rightarrow> ('c, 'm) hook \<times> ('c, 'm) effects" where
  "handleIncomingMessage closure_role st message fromPeerId =
     (case message of
        game_state_update payload \<Rightarrow>
          (if closure_role = Peer then (st\<lparr>gameState := Some payload\<rparr>, no_effects)
           else (st, no_effects))
      | player_join_request payload_peerId payload_playerName \<Rightarrow>
          (if closure_role = Host then
             (case gameStateRef st of
                None \<Rightarrow> (st, no_effects)
              | Some currentGameState \<Rightarrow>
                  if int (length (players currentGameState)) \<ge> playerCount currentGameState
                  then (st, send_to st fromPeerId game_full)
                  else
                    let newPlayer =
                          \<lparr>id_player = int (length (players currentGameState)),
                           peerId = payload_peerId,
                           name = payload_playerName,
                           hand = [], isBidder = False, isPartner = False,
                           collectedCards = [], tricksWon = 0\<rparr>;
                        newGameState = currentGameState
                          \<lparr>players := players currentGameState @ [newPlayer],
                           turnHistory := turnHistory currentGameState
                                            @ [name newPlayer @ '' has joined.'']\<rparr>;
                        welcomed = send_to st fromPeerId (welcome_msg newGameState)
                    in if thrown welcomed then (st, welcomed)
                       else let (st', notified) = broadcastGameState closure_role st newGameState
                            in (st', then_effects welcomed notified))
           else (st, no_effects))
      | welcome_msg payload \<Rightarrow> (st\<lparr>gameState := Some payload\<rparr>, no_effects)
      | game_full \<Rightarrow>
          (st\<lparr>role := RoleNone\<rparr>,
           toast ''Game is full'' ''Could not join the game because it is full.''))"

text \<open>
  The handler of \<^verbatim>\<open>close\<close> that \<^verbatim>\<open>initializePeer\<close> registers on an incoming
  connection, in a render in which \<^verbatim>\<open>role\<close> was \<open>closure_role\<close>; \<open>conn_peer\<close> is
  \<^verbatim>\<open>conn.peer\<close>. The entry of the registry is deleted last, after the broadcast.
\<close>

definition on_connection_close ::
  "PlayerRole \<Rightarrow> ('c, 'm) hook \<Rightarrow> string \<Rightarrow> ('c, 'm) hook \<times> ('c, 'm) effects" where
  "on_connection_close closure_role st conn_peer =
     (let (st', eff) =
            (if closure_role = Host then
               (case gameStateRef st of
                  None \<Rightarrow> (st, no_effects)
                | Some g \<Rightarrow>
                    let newPlayers = filter (\<lambda>p. peerId p \<noteq> conn_peer) (players g)
                    in if length newPlayers < length (players g)
                       then broadcastGameState closure_role st
                              (g\<lparr>players := newPlayers,
                                 turnHistory := turnHistory g @ [''A player has disconnected.'']\<rparr>)
                       else (st, no_effects))
             else (st, no_effects))
      in (st'\<lparr>connectionsRef := registry_delete (connectionsRef st') conn_peer\<rparr>, eff))"

text \<open>
  \<^verbatim>\<open>hostGame\<close> of a render in which \<^verbatim>\<open>myPeerId\<close> was \<open>closure_myPeerId\<close>; the
  room code that \<^verbatim>\<open>generateRoomCode()\<close> returns is the parameter \<open>roomCode\<close>.
\<close>

definition hostGame ::
  "string \<Rightarrow> string \<Rightarrow> ('c, 'm) hook \<Rightarrow> ('c, 'm) GameState_scheme
     \<Rightarrow> ('c, 'm) hook \<times> ('c, 'm) effects" where
  "hostGame closure_myPeerId roomCode st initialState =
     (if closure_myPeerId = [] then
        (st, toast ''Error'' ''Could not get a peer ID to host.'')
      else
        (st\<lparr>role := Host,
            gameState := Some (initialState\<lparr>id_room := roomCode,
                                            hostPeerId := closure_myPeerId\<rparr>)\<rparr>,
         no_effects))"

text \<open>
  \<^verbatim>\<open>joinGame\<close> of a render in which \<^verbatim>\<open>role\<close> and \<^verbatim>\<open>myPeerId\<close> were
  \<open>closure_role\<close> and \<open>closure_myPeerId\<close>: the new connection, which is not open yet,
  gets the handlers of that render.
\<close>

definition joinGame ::
  "PlayerRole \<Rightarrow> string \<Rightarrow> ('c, 'm) hook \<Rightarrow> string \<Rightarrow> ('c, 'm) hook \<times> ('c, 'm) effects" where
  "joinGame closure_role closure_myPeerId st hostPeerId' =
     (if \<not> peerRef st \<or> closure_myPeerId = [] then
        (st, toast ''Connection not ready'' ''Please wait a moment and try again.'')
      else
        (st\<lparr>conns := conns st @ [\<lparr>peer = hostPeerId', open_conn = False,
                                   origin = Outgoing closure_role closure_myPeerId,
                                   listening = False\<rparr>],
            role := Peer\<rparr>,
         no_effects))"

subsection \<open>Events\<close>

text \<open>
  What happens to the hook, one event at a time: each is handled to completion before
  the next.

  \<^item> \<open>PeerCreated\<close>: the import in \<^verbatim>\<open>initializePeer\<close> has resolved and the PeerJS
    instance is made. \<open>PeerOpen\<close>, \<open>PeerError\<close> and \<open>Connection\<close> are the events
    \<^verbatim>\<open>open\<close>, \<^verbatim>\<open>error\<close> (the flag tells the type \<^verbatim>\<open>peer-unavailable\<close>) and
    \<^verbatim>\<open>connection\<close> of that instance.
  \<^item> \<open>Open\<close>, \<open>Data\<close>, \<open>Close\<close> and \<open>Error\<close> are the events of the connection at
    the given position. PeerJS sets \<^verbatim>\<open>open\<close> before it emits \<^verbatim>\<open>open\<close> and clears
    it before it emits \<^verbatim>\<open>close\<close>.
  \<^item> \<open>Render\<close> is a render of the component with its effects.
  \<^item> \<open>HostGame\<close>, \<open>JoinGame\<close> and \<open>Broadcast\<close> are calls, by the user of the hook,
    of the functions that the last render returned.

  \<^verbatim>\<open>initializePeer\<close> is made by \<^verbatim>\<open>useCallback\<close> with the dependency \<^verbatim>\<open>toast\<close>
  and is called by an effect that depends on it alone. The function \<^verbatim>\<open>toast\<close> of
  \<^verbatim>\<open>./use-toast\<close> is taken to be the same in every render. So \<^verbatim>\<open>initializePeer\<close>
  is the function of the first render and runs once, and the handlers of \<^verbatim>\<open>data\<close>
  and \<^verbatim>\<open>close\<close> that it registers on incoming connections are those of the first
  render, in which \<^verbatim>\<open>role\<close> is \<open>initial_role\<close>.
\<close>

datatype ('c, 'm) event =
    PeerCreated
  | PeerOpen string
  | PeerError bool
  | Connection string
  | Open nat
  | Data nat "('c, 'm) Message"
  | Close nat
  | Error nat
  | Render
  | HostGame string "('c, 'm) GameState_scheme"
  | JoinGame string
  | Broadcast "('c, 'm) GameState_scheme"

definition on_peer_error :: "('c, 'm) hook \<Rightarrow> bool \<Rightarrow> ('c, 'm) hook \<times> ('c, 'm) effects" where
  "on_peer_error st peer_unavailable =
     (if peer_unavailable then
        (st\<lparr>role := RoleNone, gameState := None, status := error\<rparr>,
         toast ''Could Not Join''
           ''The host is not available. Please check the game code and try again.'')
      else
        (st\<lparr>status := error\<rparr>, toast ''Connection Error'' ''A network error occurred.''))"

definition on_connection :: "('c, 'm) hook \<Rightarrow> string \<Rightarrow> ('c, 'm) hook \<times> ('c, 'm) effects" where
  "on_connection st conn_peer =
     (st\<lparr>conns := conns st @ [\<lparr>peer = conn_peer, open_conn = False, origin = Incoming,
                                listening = False\<rparr>],
         connectionsRef := registry_set (connectionsRef st) conn_peer (length (conns st))\<rparr>,
      no_effects)"

definition on_open :: "('c, 'm) hook \<Rightarrow> nat \<Rightarrow> ('c, 'm) hook \<times> ('c, 'm) effects" where
  "on_open st i =
     (case conn_at st i of
        None \<Rightarrow> (st, no_effects)
      | Some conn \<Rightarrow>
          (case origin conn of
             Incoming \<Rightarrow>
               (st\<lparr>conns := (conns st)[i := conn\<lparr>open_conn := True, listening := True\<rparr>]\<rparr>,
                no_effects)
           | Outgoing closure_role closure_myPeerId \<Rightarrow>
               (st\<lparr>conns := (conns st)[i := conn\<lparr>open_conn := True\<rparr>],
                   connectionsRef := registry_set (connectionsRef st) (peer conn) i\<rparr>,
                \<lparr>sends = [(peer conn,
                            player_join_request closure_myPeerId (localPlayerName st))],
                 toasts = [], thrown = False\<rparr>)))"

definition on_data ::
  "('c, 'm) hook \<Rightarrow> nat \<Rightarrow> ('c, 'm) Message \<Rightarrow> ('c, 'm) hook \<times> ('c, 'm) effects" where
  "on_data st i message =
     (case conn_at st i of
        None \<Rightarrow> (st, no_effects)
      | Some conn \<Rightarrow>
          (case origin conn of
             Incoming \<Rightarrow>
               if listening conn
               then handleIncomingMessage initial_role st message (peer conn)
               else (st, no_effects)
           | Outgoing closure_role closure_myPeerId \<Rightarrow>
               handleIncomingMessage closure_role st message (peer conn)))"

definition on_close :: "('c, 'm) hook \<Rightarrow> nat \<Rightarrow> ('c, 'm) hook \<times> ('c, 'm) effects" where
  "on_close st i =
     (case conn_at st i of
        None \<Rightarrow> (st, no_effects)
      | Some conn \<Rightarrow>
          let st1 = st\<lparr>conns := (conns st)[i := conn\<lparr>open_conn := False\<rparr>]\<rparr>
          in (case origin conn of
                Incoming \<Rightarrow>
                  if listening conn then on_connection_close initial_role st1 (peer conn)
                  else (st1, no_effects)
              | Outgoing closure_role closure_myPeerId \<Rightarrow> (st1, no_effects)))"

definition on_error :: "('c, 'm) hook \<Rightarrow> nat \<Rightarrow> ('c, 'm) hook \<times> ('c, 'm) effects" where
  "on_error st i =
     (case conn_at st i of
        None \<Rightarrow> (st, no_effects)
      | Some conn \<Rightarrow>
          (case origin conn of
             Incoming \<Rightarrow> (st, no_effects)
           | Outgoing closure_role closure_myPeerId \<Rightarrow>
               (st\<lparr>role := RoleNone\<rparr>,
                toast ''Failed to Join'' ''Could not connect to the host.'')))"

definition render :: "('c, 'm) hook \<Rightarrow> ('c, 'm) hook" where
  "render st = st\<lparr>rendered_role := role st, rendered_myPeerId := myPeerId st,
                   gameStateRef := gameState st\<rparr>"

fun step :: "('c, 'm) hook \<Rightarrow> ('c, 'm) event \<Rightarrow> ('c, 'm) hook \<times> ('c, 'm) effects" where
  "step st PeerCreated = (st\<lparr>peerRef := True, status := connecting\<rparr>, no_effects)"
| "step st (PeerOpen id') = (st\<lparr>myPeerId := id', status := connected\<rparr>, no_effects)"
| "step st (PeerError peer_unavailable) = on_peer_error st peer_unavailable"
| "step st (Connection conn_peer) = on_connection st conn_peer"
| "step st (Open i) = on_open st i"
| "step st (Data i message) = on_data st i message"
| "step st (Close i) = on_close st i"
| "step st (Error i) = on_error st i"
| "step st Render = (render st, no_effects)"
| "step st (HostGame roomCode initialState) =
     hostGame (rendered_myPeerId st) roomCode st initialState"
| "step st (JoinGame hostPeerId') = joinGame (rendered_role st) (rendered_myPeerId st) st hostPeerId'"
| "step st (Broadcast newState) = broadcastGameState (rendered_role st) st newState"

definition run :: "('c, 'm) hook \<Rightarrow> ('c, 'm) event list \<Rightarrow> ('c, 'm) hook" where
  "run st evs = foldl (\<lambda>s e. fst (step s e)) st evs"

subsection \<open>Invariants of the game state\<close>

text \<open>
  The number of players is within the capacity of the room, in \<^verbatim>\<open>gameState\<close> and in
  \<^verbatim>\<open>gameStateRef.current\<close>; where there is no game state there are no players.
\<close>

definition capacity_ok :: "('c, 'm) GameState_scheme option \<Rightarrow> bool" where
  "capacity_ok s =
     (case s of None \<Rightarrow> True | Some g \<Rightarrow> int (length (players g)) \<le> playerCount g)"

definition within_capacity :: "('c, 'm) hook \<Rightarrow> bool" where
  "within_capacity st = (capacity_ok (gameState st) \<and> capacity_ok (gameStateRef st))"



text \<open>
  The events of joining and leaving: a join request on a connection and the close of a
  connection, with what lies between them, the arrival and the opening of a connection
  and a render.
\<close>

fun join_or_close :: "('c, 'm) event \<Rightarrow> bool" where
  "join_or_close (Data i (player_join_request payload_peerId payload_playerName)) = True"
| "join_or_close (Close i) = True"
| "join_or_close (Connection conn_peer) = True"
| "join_or_close (Open i) = True"
| "join_or_close Render = True"
| "join_or_close other = False"

text \<open>
  The events that are a call of \<^verbatim>\<open>hostGame\<close> or \<^verbatim>\<open>joinGame\<close>, an error of a
  connection or of the PeerJS instance, or the message \<open>game_full\<close>.
\<close>

fun role_event :: "('c, 'm) event \<Rightarrow> bool" where
  "role_event (HostGame roomCode initialState) = True"
| "role_event (JoinGame hostPeerId') = True"
| "role_event (Error i) = True"
| "role_event (PeerError peer_unavailable) = True"
| "role_event (Data i game_full) = True"
| "role_event other = False"

subsection \<open>Sample data\<close>

text \<open>
  Hana, whose peer id is \<open>''h''\<close>, opens a room for four in which she is the first
  player. Cards are numbers here.
\<close>

definition player0 :: "nat Player" where
  "player0 = \<lparr>id_player = 0, peerId = ''h'', name = ''Hana'', hand = [], isBidder = False,
              isPartner = False, collectedCards = [], tricksWon = 0\<rparr>"

definition playerA :: "nat Player" where
  "playerA = \<lparr>id_player = 1, peerId = ''a'', name = ''Alice'', hand = [], isBidder = False,
              isPartner = False, collectedCards = [], tricksWon = 0\<rparr>"

definition playerX :: "nat Player" where
  "playerX = \<lparr>id_player = 1, peerId = ''x'', name = ''Xi'', hand = [], isBidder = False,
              isPartner = False, collectedCards = [], tricksWon = 0\<rparr>"

definition room_init :: "nat GameState" where
  "room_init = \<lparr>id_room = [], hostPeerId = [], players = [player0], playerCount = 4,
                turnHistory = []\<rparr>"

definition room0 :: "nat GameState" where
  "room0 = room_init\<lparr>id_room := ''ROOM'', hostPeerId := ''h''\<rparr>"

definition roomA :: "nat GameState" where
  "roomA = room0\<lparr>players := [player0, playerA], turnHistory := [''Alice has joined.'']\<rparr>"

definition roomX :: "nat GameState" where
  "roomX = room0\<lparr>players := [player0, playerX], turnHistory := [''Xi has joined.'']\<rparr>"

definition forged_room :: "nat GameState" where
  "forged_room = room0\<lparr>hostPeerId := ''m'', turnHistory := [''forged'']\<rparr>"

text \<open>The component mounts and the PeerJS instance opens with the id \<open>me\<close>.\<close>

definition boot :: "string \<Rightarrow> (nat, unit) event list" where
  "boot me = [PeerCreated, Render, PeerOpen me, Render]"

text \<open>Hana hosts the room; a connection from \<open>''a''\<close> arrives and opens.\<close>

definition hosting :: "(nat, unit) hook" where
  "hosting = run (initial_hook ''Hana'')
     (boot ''h'' @ [HostGame ''ROOM'' room_init, Render, Connection ''a'', Open 0])"

text \<open>The same with a room for one, which is full.\<close>

definition hosting_full :: "(nat, unit) hook" where
  "hosting_full = run (initial_hook ''Hana'')
     (boot ''h'' @ [HostGame ''ROOM'' (room_init\<lparr>playerCount := 1\<rparr>), Render,
                    Connection ''a'', Open 0])"

text \<open>The same with a room in which Alice, whose peer id is \<open>''a''\<close>, is a player.\<close>

definition hosting_two :: "(nat, unit) hook" where
  "hosting_two = run (initial_hook ''Hana'')
     (boot ''h'' @ [HostGame ''ROOM'' (room_init\<lparr>players := [player0, playerA]\<rparr>), Render,
                    Connection ''a'', Open 0])"

text \<open>
  Hana hosts the room, calls \<^verbatim>\<open>joinGame\<close> with the peer \<open>''x''\<close> from the render in
  which she is host, the connection to \<open>''x''\<close> opens, and she hosts the room again.
\<close>

definition rehost :: "(nat, unit) hook" where
  "rehost = run (initial_hook ''Hana'')
     (boot ''h'' @ [HostGame ''ROOM'' room_init, Render, JoinGame ''x'', Render, Open 0,
                    HostGame ''ROOM'' room_init, Render])"

text \<open>
  Alice joins the host \<open>''h''\<close>: the connection opens and the host's welcome with the
  room arrives on it.
\<close>

definition joined :: "(nat, unit) hook" where
  "joined = run (initial_hook ''Alice'')
     (boot ''a'' @ [JoinGame ''h'', Render, Open 0, Data 0 (welcome_msg room0), Render])"

text \<open>Then a connection from the peer \<open>''m''\<close> arrives at Alice and opens.\<close>

definition joined_m :: "(nat, unit) hook" where
  "joined_m = run joined [Connection ''m'', Open 1]"

text \<open>
  Join requests of Xi, Yu, Zoe and Wim on the connection to \<open>''x''\<close>, each followed by
  a render; after the first, a connection from \<open>''x''\<close> arrives, opens and closes.
\<close>

definition rush :: "(nat, unit) event list" where
  "rush = [Data 0 (player_join_request ''x'' ''Xi''), Render,
           Connection ''x'', Open 1, Close 1,
           Data 0 (player_join_request ''y'' ''Yu''), Render,
           Data 0 (player_join_request ''z'' ''Zoe''), Render,
           Data 0 (player_join_request ''w'' ''Wim''), Render]"

section \<open>Properties\<close>

subsection \<open>Auxiliary facts\<close>

lemmas hook_defs =
  run_def boot_def initial_hook_def initial_role_def on_peer_error_def on_connection_def
  on_open_def on_data_def on_close_def on_error_def render_def hostGame_def joinGame_def
  handleIncomingMessage_def on_connection_close_def broadcastGameState_def send_to_def
  registry_set_def registry_delete_def registry_get_def registry_values_def
  prototype_keys_def array_index_def digit_value_def conn_at_def
  no_effects_def then_effects_def toast_def Let_def

lemma hosting_eq:
  "hosting = \<lparr>localPlayerName = ''Hana'', myPeerId = ''h'', status = connected, role = Host,
     gameState = Some room0, rendered_role = Host, rendered_myPeerId = ''h'', peerRef = True,
     gameStateRef = Some room0, connectionsRef = [(''a'', 0)],
     conns = [\<lparr>peer = ''a'', open_conn = True, origin = Incoming, listening = True\<rparr>]\<rparr>"
  by (simp add: hosting_def room0_def hook_defs)

lemma hosting_full_eq:
  "hosting_full = hosting\<lparr>gameState := Some (room0\<lparr>playerCount := 1\<rparr>),
                             gameStateRef := Some (room0\<lparr>playerCount := 1\<rparr>)\<rparr>"
  by (simp add: hosting_full_def hosting_def room0_def hook_defs)

lemma hosting_two_eq:
  "hosting_two = hosting\<lparr>gameState := Some (room0\<lparr>players := [player0, playerA]\<rparr>),
                            gameStateRef := Some (room0\<lparr>players := [player0, playerA]\<rparr>)\<rparr>"
  by (simp add: hosting_two_def hosting_def room0_def hook_defs)

lemma rehost_eq:
  "rehost = \<lparr>localPlayerName = ''Hana'', myPeerId = ''h'', status = connected, role = Host,
     gameState = Some room0, rendered_role = Host, rendered_myPeerId = ''h'', peerRef = True,
     gameStateRef = Some room0, connectionsRef = [(''x'', 0)],
     conns = [\<lparr>peer = ''x'', open_conn = True, origin = Outgoing Host ''h'',
               listening = False\<rparr>]\<rparr>"
  by (simp add: rehost_def room0_def hook_defs)

lemma joined_eq:
  "joined = \<lparr>localPlayerName = ''Alice'', myPeerId = ''a'', status = connected, role = Peer,
     gameState = Some room0, rendered_role = Peer, rendered_myPeerId = ''a'', peerRef = True,
     gameStateRef = Some room0, connectionsRef = [(''h'', 0)],
     conns = [\<lparr>peer = ''h'', open_conn = True, origin = Outgoing RoleNone ''a'',
               listening = False\<rparr>]\<rparr>"
  by (simp add: joined_def room0_def hook_defs)

lemma joined_m_eq:
  "joined_m = joined\<lparr>connectionsRef := [(''h'', 0), (''m'', 1)],
     conns := [\<lparr>peer = ''h'', open_conn = True, origin = Outgoing RoleNone ''a'',
                listening = False\<rparr>,
               \<lparr>peer = ''m'', open_conn = True, origin = Incoming, listening = True\<rparr>]\<rparr>"
  by (simp add: joined_m_def joined_eq hook_defs)

text \<open>
  After the events \<open>rush\<close> the players are Hana, Xi, Yu and Zoe with the ids 0 to 3:
  the close of the connection from \<open>''x''\<close> removed nobody, and Wim found the room
  full.
\<close>

lemma rush_result:
  "map_option (\<lambda>g. (map peerId (players g), map id_player (players g), playerCount g))
     (gameState (run rehost rush))
   = Some ([''h'', ''x'', ''y'', ''z''], [0, 1, 2, 3], 4)"
  by (simp add: rush_def rehost_eq room0_def room_init_def player0_def hook_defs)

lemma message_keeps_role:
  "message \<noteq> game_full \<Longrightarrow>
     role (fst (handleIncomingMessage r st message fromPeerId)) = role st"
  by (cases message)
     (simp_all add: handleIncomingMessage_def broadcastGameState_def Let_def
        split: option.splits)

lemma join_keeps:
  "gameStateRef (fst (handleIncomingMessage r st (player_join_request a b) fromPeerId))
     = gameStateRef st
   \<and> role (fst (handleIncomingMessage r st (player_join_request a b) fromPeerId)) = role st"
  by (simp add: handleIncomingMessage_def broadcastGameState_def Let_def split: option.splits)

lemma join_capacity:
  "within_capacity st \<Longrightarrow>
     within_capacity (fst (handleIncomingMessage r st (player_join_request a b) fromPeerId))"
  by (auto simp: within_capacity_def capacity_ok_def handleIncomingMessage_def
      broadcastGameState_def Let_def split: option.splits)


lemma close_keeps:
  "gameStateRef (fst (on_connection_close r st p)) = gameStateRef st
   \<and> role (fst (on_connection_close r st p)) = role st"
  by (simp add: on_connection_close_def broadcastGameState_def Let_def split: option.splits)

lemma close_capacity:
  "within_capacity st \<Longrightarrow> within_capacity (fst (on_connection_close r st p))"
  by (auto simp: within_capacity_def capacity_ok_def on_connection_close_def
      broadcastGameState_def Let_def split: option.splits)


lemma step_capacity:
  "within_capacity st \<Longrightarrow> join_or_close e \<Longrightarrow>
     within_capacity (fst (step st e)) \<and> role (fst (step st e)) = role st"
proof (cases e rule: join_or_close.cases)
  case (1 i a b)
  assume "within_capacity st"
  with 1 show ?thesis
    by (auto simp: on_data_def join_capacity join_keeps split: option.splits origin.splits)
next
  case (2 i)
  assume wc: "within_capacity st"
  have upd: "within_capacity (st\<lparr>conns := cs\<rparr>)" for cs
    using wc by (simp add: within_capacity_def)
  from 2 show ?thesis
    by (auto simp: on_close_def Let_def close_capacity close_keeps upd wc
        split: option.splits origin.splits)
next
  case (3 p)
  assume "within_capacity st"
  with 3 show ?thesis by (simp add: on_connection_def within_capacity_def)
next
  case (4 i)
  assume "within_capacity st"
  with 4 show ?thesis
    by (auto simp: on_open_def within_capacity_def split: option.splits origin.splits)
next
  case 5
  assume "within_capacity st"
  with 5 show ?thesis by (simp add: render_def within_capacity_def)
qed simp_all



lemma step_keeps_role:
  "\<not> role_event e \<Longrightarrow> role (fst (step st e)) = role st"
proof (cases e)
  case (Data i message)
  assume "\<not> role_event e"
  with Data have "message \<noteq> game_full"
    by auto
  with Data show ?thesis
    by (auto simp: on_data_def message_keeps_role split: option.splits origin.splits)
next
  case (Close i)
  then show ?thesis
    by (auto simp: on_close_def Let_def close_keeps split: option.splits origin.splits)
next
  case (Open i)
  then show ?thesis
    by (auto simp: on_open_def split: option.splits origin.splits)
qed (auto simp: on_connection_def render_def broadcastGameState_def)

subsection \<open>Joining\<close>

text \<open>
  C1. The claim is that the host, on a join request while \<open>players.length <
  playerCount\<close>, appends the new player with the id \<open>players.length\<close>, appends the join
  notice, welcomes the requester with the new state and adopts it. In the code the
  handler of \<^verbatim>\<open>data\<close> on an incoming connection is the \<^verbatim>\<open>handleIncomingMessage\<close>
  of the first render, which reads the role \<^verbatim>\<open>'none'\<close>, whatever \<^verbatim>\<open>hostGame\<close> has
  set since. Hana hosts a room for four in which she is alone; the connection from
  \<open>''a''\<close> is open and in the registry; the join request of Alice arrives on it:
  nothing is sent and nothing changes.
\<close>

theorem host_drops_join_request:
  "role hosting = Host
   \<and> gameState hosting = Some room0 \<and> gameStateRef hosting = Some room0
   \<and> int (length (players room0)) < playerCount room0
   \<and> map (\<lambda>conn. (peer conn, open_conn conn)) (registry_values hosting) = [(''a'', True)]
   \<and> step hosting (Data 0 (player_join_request ''a'' ''Alice''))
       = (hosting, \<lparr>sends = [], toasts = [], thrown = False\<rparr>)"
  by (simp add: hosting_eq room0_def room_init_def hook_defs)

text \<open>
  C2. The claim is that the host, on a join request while \<open>players.length \<ge>
  playerCount\<close>, sends one \<open>game_full\<close> to the requester and changes nothing. In the
  code the handler on an incoming connection reads the role \<^verbatim>\<open>'none'\<close>, as for C1.
  Hana hosts a room for one, which she fills; the join request of Alice arrives on the
  open connection from \<open>''a''\<close>: nothing changes, and no \<open>game_full\<close> is sent.
\<close>

theorem full_host_sends_no_game_full:
  "role hosting_full = Host
   \<and> gameStateRef hosting_full = Some (room0\<lparr>playerCount := 1\<rparr>)
   \<and> playerCount (room0\<lparr>playerCount := 1\<rparr>)
       \<le> int (length (players (room0\<lparr>playerCount := 1\<rparr>)))
   \<and> map (\<lambda>conn. (peer conn, open_conn conn)) (registry_values hosting_full) = [(''a'', True)]
   \<and> step hosting_full (Data 0 (player_join_request ''a'' ''Alice''))
       = (hosting_full, \<lparr>sends = [], toasts = [], thrown = False\<rparr>)"
  by (simp add: hosting_full_eq hosting_eq room0_def room_init_def hook_defs)

text \<open>
  C3. The claim is that after an accepted join the state update goes to every open
  connection except the one of the joiner, who has the welcome. In the code the comment
  before the broadcast reads ``Notify all other players'', and \<open>broadcastGameState\<close>
  sends on every open connection of the registry. A join is accepted by a handler that
  reads the role \<^verbatim>\<open>'host'\<close>; such is the handler on a connection that \<^verbatim>\<open>joinGame\<close>
  made in a render in which the role was \<^verbatim>\<open>'host'\<close>. Hana, host of her room, has
  such a connection to \<open>''x''\<close>, open and in the registry. The join request of Xi
  arrives on it: Xi is added, and the connection gets the welcome and then the update
  as well.
\<close>

theorem welcome_recipient_also_updated:
  "role rehost = Host \<and> gameStateRef rehost = Some room0
   \<and> step rehost (Data 0 (player_join_request ''x'' ''Xi''))
       = (rehost\<lparr>gameState := Some roomX\<rparr>,
          \<lparr>sends = [(''x'', welcome_msg roomX), (''x'', game_state_update roomX)],
           toasts = [], thrown = False\<rparr>)"
  by (simp add: rehost_eq roomX_def playerX_def room0_def room_init_def hook_defs)

subsection \<open>The replica of a peer\<close>

text \<open>
  C4, as the code has it. A welcome that arrives on a connection with a handler of
  \<^verbatim>\<open>data\<close> replaces the cached game state by its payload, on whichever connection
  and in whichever role. A state update replaces it by its payload when the handler
  reads the role \<^verbatim>\<open>'peer'\<close> and is ignored otherwise. The message \<open>game_full\<close>
  leaves the cached game state as it is, and so does a join request unless the handler
  reads the role \<^verbatim>\<open>'host'\<close>. No handler consults the sender of a welcome or of a
  state update: the outcome is the same for every sender.
\<close>

theorem welcome_replaces_state_from_any_sender:
  "(conn_at st i = Some conn \<and> (origin conn = Incoming \<longrightarrow> listening conn) \<longrightarrow>
      gameState (fst (step st (Data i (welcome_msg S)))) = Some S)
   \<and> gameState (fst (handleIncomingMessage r st (welcome_msg S) fromPeerId)) = Some S
   \<and> gameState (fst (handleIncomingMessage r st (game_state_update S) fromPeerId))
       = (if r = Peer then Some S else gameState st)
   \<and> gameState (fst (handleIncomingMessage r st game_full fromPeerId)) = gameState st
   \<and> (r \<noteq> Host \<longrightarrow>
        gameState (fst (handleIncomingMessage r st (player_join_request a b) fromPeerId))
          = gameState st)
   \<and> handleIncomingMessage r st (welcome_msg S) fromPeerId
       = handleIncomingMessage r st (welcome_msg S) fromPeerId'
   \<and> handleIncomingMessage r st (game_state_update S) fromPeerId
       = handleIncomingMessage r st (game_state_update S) fromPeerId'"
  by (auto simp: on_data_def handleIncomingMessage_def split: origin.splits)

theorem welcome_replaces_state_from_any_sender_witness:
  "conn_at joined_m 1
     = Some \<lparr>peer = ''m'', open_conn = True, origin = Incoming, listening = True\<rparr>
   \<and> gameState (fst (step joined_m (Data 1 (welcome_msg forged_room)))) = Some forged_room
   \<and> RoleNone \<noteq> Host
   \<and> gameState (fst (handleIncomingMessage RoleNone joined_m
                        (player_join_request ''m'' ''Mal'') ''m''))
       = gameState joined_m"
proof -
  have c: "conn_at joined_m 1
             = Some \<lparr>peer = ''m'', open_conn = True, origin = Incoming, listening = True\<rparr>"
    by (simp add: joined_m_eq joined_eq conn_at_def)
  from welcome_replaces_state_from_any_sender
         [of joined_m 1 "\<lparr>peer = ''m'', open_conn = True, origin = Incoming, listening = True\<rparr>"
             forged_room RoleNone _ "''m''" "''Mal''" "''m''"] c
  show ?thesis by simp
qed

text \<open>
  C4, as claimed, fails. Alice is a peer of the host \<open>''h''\<close> and holds the host's
  room. A connection from the peer \<open>''m''\<close> is open. A welcome that arrives on it
  replaces the cached state by its payload.
\<close>

theorem peer_accepts_welcome_from_any_sender:
  "role joined_m = Peer \<and> gameState joined_m = Some room0 \<and> hostPeerId room0 = ''h''
   \<and> map peer (conns joined_m) = [''h'', ''m'']
   \<and> gameState (fst (step joined_m (Data 1 (welcome_msg forged_room)))) = Some forged_room
   \<and> forged_room \<noteq> room0"
  by (simp add: joined_m_eq joined_eq forged_room_def room0_def room_init_def hook_defs)

text \<open>
  C5. The claim is that a peer that handles \<open>game_state_update S\<close> has \<open>S\<close> as its
  cached state. In the code the handler on the connection to the host is the
  \<^verbatim>\<open>handleIncomingMessage\<close> of the render that called \<^verbatim>\<open>joinGame\<close>, in which the
  role was not yet \<^verbatim>\<open>'peer'\<close>. Alice has joined the host \<open>''h''\<close> and holds the room
  of the welcome. The host's update with the room that Alice has joined arrives: the
  cached state stays the room of the welcome.
\<close>

theorem peer_ignores_state_update:
  "role joined = Peer \<and> gameState joined = Some room0 \<and> hostPeerId room0 = ''h''
   \<and> map peer (conns joined) = [''h'']
   \<and> step joined (Data 0 (game_state_update roomA))
       = (joined, \<lparr>sends = [], toasts = [], thrown = False\<rparr>)
   \<and> gameState (fst (step joined (Data 0 (game_state_update roomA)))) \<noteq> Some roomA"
  by (simp add: joined_eq roomA_def room0_def room_init_def hook_defs)

subsection \<open>Ordinal ids\<close>



subsection \<open>Capacity\<close>

text \<open>
  C7. From a state in which the number of players is at most \<open>playerCount\<close>, every
  sequence of join requests and connection closes leads to a state in which it still
  is; such a sequence leaves the role as it was, so a host remains a host.
\<close>

theorem capacity_preserved:
  "within_capacity st \<Longrightarrow> list_all join_or_close evs \<Longrightarrow>
     within_capacity (run st evs) \<and> role (run st evs) = role st"
  unfolding run_def
proof (induction evs arbitrary: st)
  case Nil
  then show ?case by simp
next
  case (Cons e evs)
  from Cons.prems have "within_capacity (fst (step st e))"
    and "role (fst (step st e)) = role st" and "list_all join_or_close evs"
    using step_capacity [of st e] by simp_all
  with Cons.IH [of "fst (step st e)"] show ?case by simp
qed

theorem capacity_preserved_witness:
  "within_capacity rehost \<and> list_all join_or_close rush
   \<and> within_capacity (run rehost rush) \<and> role (run rehost rush) = Host"
proof -
  have h1: "within_capacity rehost"
    by (simp add: within_capacity_def capacity_ok_def rehost_eq room0_def room_init_def)
  have h2: "list_all join_or_close rush"
    by (simp add: rush_def)
  have h3: "role rehost = Host"
    by (simp add: rehost_eq)
  from capacity_preserved [OF h1 h2] h1 h2 h3
  show ?thesis by simp
qed

subsection \<open>Disconnects\<close>

text \<open>
  C8. The claim is that the host, when the connection of a player closes, removes the
  player, appends the disconnect notice and broadcasts the resulting state. In the code
  the handler of \<^verbatim>\<open>close\<close> is the one of the first render, which reads the role
  \<^verbatim>\<open>'none'\<close>, as for C1; the comment in it reads ``A real implementation would
  handle player disconnects here by removing them from game state and broadcasting''.
  Hana hosts a room in which Alice, with the peer id \<open>''a''\<close>, is a player; the
  connection from \<open>''a''\<close> closes: its entry leaves the registry, Alice stays a
  player, no notice is appended and nothing is sent.
\<close>

theorem host_keeps_disconnected_player:
  "role hosting_two = Host
   \<and> gameStateRef hosting_two = Some (room0\<lparr>players := [player0, playerA]\<rparr>)
   \<and> peerId playerA = ''a''
   \<and> map peer (conns hosting_two) = [''a'']
   \<and> step hosting_two (Close 0)
       = (hosting_two\<lparr>connectionsRef := [],
            conns := [\<lparr>peer = ''a'', open_conn = False, origin = Incoming, listening = True\<rparr>]\<rparr>,
          \<lparr>sends = [], toasts = [], thrown = False\<rparr>)
   \<and> gameState (fst (step hosting_two (Close 0)))
       = Some (room0\<lparr>players := [player0, playerA]\<rparr>)"
  by (simp add: hosting_two_eq hosting_eq playerA_def hook_defs)

subsection \<open>The role\<close>

text \<open>
  C9, as the code has it. Handling a message other than \<open>game_full\<close> leaves the role
  as it was; a process in peer role that handles \<open>game_full\<close> is in role \<^verbatim>\<open>'none'\<close>
  afterwards. Every other change of the role comes from a call of \<^verbatim>\<open>hostGame\<close> or
  \<^verbatim>\<open>joinGame\<close> or from an error of a connection or of the PeerJS instance: no other
  event changes it.
\<close>

theorem role_changes:
  "(message \<noteq> game_full \<longrightarrow>
      role (fst (handleIncomingMessage r st message fromPeerId)) = role st)
   \<and> (role st = Peer \<longrightarrow>
        role (fst (handleIncomingMessage r st game_full fromPeerId)) = RoleNone)
   \<and> (\<not> role_event e \<longrightarrow> role (fst (step st e)) = role st)"
proof -
  have full: "role (fst (handleIncomingMessage r st game_full fromPeerId)) = RoleNone"
    by (simp add: handleIncomingMessage_def)
  with message_keeps_role [of message r st fromPeerId] step_keeps_role [of e st]
  show ?thesis by blast
qed

theorem role_changes_witness:
  "game_state_update roomA \<noteq> (game_full :: (nat, unit) Message)
   \<and> role (fst (handleIncomingMessage RoleNone joined (game_state_update roomA) ''h'')) = Peer
   \<and> role joined = Peer
   \<and> role (fst (handleIncomingMessage RoleNone joined game_full ''h'')) = RoleNone
   \<and> \<not> role_event (Close 0 :: (nat, unit) event)
   \<and> role (fst (step joined (Close 0))) = Peer"
proof -
  have h: "role joined = Peer"
    by (simp add: joined_eq)
  from role_changes [of "game_state_update roomA" RoleNone joined "''h''" "Close 0"] h
  show ?thesis by simp
qed

text \<open>
  C9, as claimed, fails: Alice, a peer of the host \<open>''h''\<close>, is in role \<^verbatim>\<open>'none'\<close>
  after \<open>game_full\<close> has arrived on the connection to the host.
\<close>

theorem game_full_changes_role:
  "role joined = Peer
   \<and> role (fst (step joined (Data 0 game_full))) = RoleNone
   \<and> role (fst (step joined (Data 0 game_full))) \<noteq> role joined"
  by (simp add: joined_eq hook_defs)

subsection \<open>Broadcasting\<close>

text \<open>
  C10. For every state \<open>newState\<close>, the \<open>broadcastGameState\<close> of a render in which the
  role is other than host calls \<^verbatim>\<open>send\<close> on no connection, raises no toast and leaves
  the whole of the hook's data, the game state included, as it was; so does a call of
  the function that the last render returned.
\<close>

theorem broadcastGameState_not_host_noop:
  "closure_role \<noteq> Host \<Longrightarrow>
     broadcastGameState closure_role st newState
       = (st, \<lparr>sends = [], toasts = [], thrown = False\<rparr>)
     \<and> (rendered_role st = closure_role \<longrightarrow>
          step st (Broadcast newState) = (st, \<lparr>sends = [], toasts = [], thrown = False\<rparr>))"
  by (simp add: broadcastGameState_def no_effects_def)

theorem broadcastGameState_not_host_noop_witness:
  "rendered_role joined = Peer \<and> Peer \<noteq> Host
   \<and> broadcastGameState Peer joined roomA
       = (joined, \<lparr>sends = [], toasts = [], thrown = False\<rparr>)
   \<and> step joined (Broadcast roomA) = (joined, \<lparr>sends = [], toasts = [], thrown = False\<rparr>)"
proof -
  have not_host: "Peer \<noteq> Host"
    by simp
  have r: "rendered_role joined = Peer"
    by (simp add: joined_eq)
  from broadcastGameState_not_host_noop [OF not_host, of joined roomA] r
  show ?thesis by simp
qed

end
